theory Spec2Isabelle
  imports Main
begin

section \<open>Python values, exceptions and the environment\<close>

text \<open>
  The module \<open>aptsources_cleanup/util/functools.py\<close> handles arbitrary Python objects:
  the functions given to \<open>comp\<close>, the factory, the type hint and the wrapped instance of a
  \<open>LazyInstance\<close>. Objects of the caller are opaque here: a value is \<open>None\<close>, an integer,
  a string, a tuple, a type object, a callable that is not a type (a function, a bound
  method, an object with \<open>__call__\<close>), or any other, non-callable, object. What calling a
  callable returns, what \<open>getattr\<close> finds on an object and what \<open>isinstance\<close> answers is
  given by an environment.
\<close>

datatype val =
    PyNone
  | PyInt int
  | PyStr string
  | PyTuple "val list"
  | PyType string
  | PyFunc string
  | PyObj string

text \<open>
  The exceptions the module raises itself or reacts to (\<open>assert\<close> gives
  \<open>AssertionError\<close>; \<open>__init__\<close>, a call of a non-callable and \<open>getattr\<close> with a name
  that is no string give \<open>TypeError\<close>; a failed lookup gives \<open>AttributeError\<close>; the
  interpreter gives \<open>RecursionError\<close>, in Python 2 a \<open>RuntimeError\<close>, when calls nest too
  deep), and any other exception of the caller's code, by the name of its class.
  \<open>AttributeError\<close> stands for that class and the classes derived from it, which Python
  treats alike wherever this module is concerned; a class under \<open>Raised\<close> is none of them.
\<close>

datatype error = AssertionError | TypeError | AttributeError | RecursionError | Raised string

type_synonym kwargs = "(string \<times> val) list"

text \<open>
  Every call the module makes into the caller's code is recorded, in order: the callee,
  its positional and its keyword arguments. What a callee returns may depend on the calls
  made before it.
\<close>

type_synonym history = "(val \<times> val list \<times> kwargs) list"

text \<open>
  The getter of a deferred caller. Modelled from the spec: \<open>methodcaller\<close> of
  \<open>util/operator.py\<close>, which is not under src/ (``a callable that turns an
  attribute-access request into a getter function''). \<open>methodcaller(getattr, x)\<close> is the
  getter \<open>Getattr x\<close>, which called with an object returns \<open>getattr(object, x)\<close>. The
  other getter is a callable of the caller's own.
\<close>

datatype getter = Getattr val | Given val

text \<open>
  What attribute access and method binding return: a value of the wrapped instance, the
  function \<open>lambda *args: method_or_name(self._instance)(*args)\<close> with its getter, or
  the \<open>map\<close> of \<open>_li_bind_method_impl\<close> over several items, not yet iterated.
\<close>

datatype bound = Value val | Deferred getter | MapObject "val list"

text \<open>
  The environment: the outcome of calling a callable (a value or an exception), of
  \<open>getattr\<close> on an object and of \<open>isinstance\<close>. Attribute lookup and \<open>isinstance\<close>
  are taken to have no effect of their own, and a call into the environment does not
  reach back into the proxy. \<open>own_object\<close> is how an object the module built itself, a
  deferred caller or a map object, appears among the objects of the environment when the
  module hands it on. \<open>nested_reads\<close> is the room the interpreter's call stack leaves at
  an access: the number of times a failed read of \<open>self._instance\<close> can fall back to
  \<open>__getattr__\<close>, one inside the other, before the next one raises \<open>RecursionError\<close>.
\<close>

record env =
  call_of :: "val \<Rightarrow> val list \<Rightarrow> kwargs \<Rightarrow> history \<Rightarrow> error + val"
  getattr_of :: "val \<Rightarrow> string \<Rightarrow> error + val"
  isinstance_of :: "val \<Rightarrow> val \<Rightarrow> bool"
  own_object :: "bound \<Rightarrow> val"
  nested_reads :: nat

text \<open>Python's builtin \<open>callable\<close>: types and callables are, nothing else is.\<close>

definition callable :: "val \<Rightarrow> bool" where
  "callable v = (case v of PyType _ \<Rightarrow> True | PyFunc _ \<Rightarrow> True | _ \<Rightarrow> False)"

text \<open>
  Modelled from the spec: \<open>TypesType\<close> of \<open>util/_3to2.py\<close>, which is not under src/
  (``\<open>type_hint\<close>, if given, must be a type/class object''). \<open>is_type v\<close> is
  \<open>isinstance(v, TypesType)\<close>.
\<close>

definition is_type :: "val \<Rightarrow> bool" where
  "is_type v = (case v of PyType _ \<Rightarrow> True | _ \<Rightarrow> False)"

text \<open>
  The call \<open>f(*args, **kw)\<close>: a non-callable raises \<open>TypeError\<close> and nothing is
  called; otherwise the call is recorded and the environment gives its outcome.
\<close>

definition py_call :: "env \<Rightarrow> val \<Rightarrow> val list \<Rightarrow> kwargs \<Rightarrow> history \<Rightarrow> (error + val) \<times> history" where
  "py_call E f args kw h =
     (if callable f then (call_of E f args kw h, h @ [(f, args, kw)]) else (Inl TypeError, h))"

text \<open>The builtin \<open>getattr(obj, name)\<close>: the name must be a string.\<close>

definition py_getattr :: "env \<Rightarrow> val \<Rightarrow> val \<Rightarrow> error + val" where
  "py_getattr E obj name = (case name of PyStr s \<Rightarrow> getattr_of E obj s | _ \<Rightarrow> Inl TypeError)"

text \<open>
  The builtin \<open>getattr(obj, name, default)\<close>: only \<open>AttributeError\<close> is turned into
  the default.
\<close>

definition py_getattr_default :: "env \<Rightarrow> val \<Rightarrow> string \<Rightarrow> val \<Rightarrow> error + val" where
  "py_getattr_default E obj name d =
     (case getattr_of E obj name of Inl AttributeError \<Rightarrow> Inr d | r \<Rightarrow> r)"

text \<open>The builtin \<open>isinstance(v, T)\<close>: \<open>T\<close> must be a type.\<close>

definition py_isinstance :: "env \<Rightarrow> val \<Rightarrow> val \<Rightarrow> error + bool" where
  "py_isinstance E v T = (if is_type T then Inr (isinstance_of E v T) else Inl TypeError)"

section \<open>comp\<close>

text \<open>
  Modelled from the spec: \<open>identity\<close> and \<open>rapply\<close> of \<open>util/operator.py\<close>, which is not
  under src/. The specification lists them as ``an identity function'' and a generic combinator
  to ``apply one function to the result of another''. \<open>comp\<close> returns
  \<open>partial(reduce, rapply, funcs)\<close>, so \<open>rapply\<close> is called by \<open>reduce\<close> with the
  result so far as its first argument (at first the argument of the composed function) and
  the next function of \<open>funcs\<close> as its second: \<open>rapply(arg, func)\<close> applies \<open>func\<close> to
  \<open>arg\<close>.
\<close>

definition identity :: "val \<Rightarrow> val" where
  "identity x = x"

definition rapply :: "env \<Rightarrow> val \<Rightarrow> val \<Rightarrow> history \<Rightarrow> (error + val) \<times> history" where
  "rapply E arg func h = py_call E func [arg] [] h"

text \<open>
  The builtin \<open>reduce(function, sequence, initial)\<close>: a left fold; an exception of
  \<open>function\<close> ends it.
\<close>

fun reduce_py :: "('a \<Rightarrow> 'b \<Rightarrow> history \<Rightarrow> (error + 'a) \<times> history) \<Rightarrow> 'b list \<Rightarrow> 'a \<Rightarrow> history
    \<Rightarrow> (error + 'a) \<times> history" where
  "reduce_py f [] acc h = (Inr acc, h)"
| "reduce_py f (x # xs) acc h =
     (case f acc x h of
        (Inl e, h') \<Rightarrow> (Inl e, h')
      | (Inr acc', h') \<Rightarrow> reduce_py f xs acc' h')"

text \<open>
  What \<open>comp\<close> returns: the only function it was given, as it is; \<open>identity\<close>; or
  \<open>partial(reduce, rapply, funcs)\<close>.
\<close>

datatype composed = Func val | Identity | PartialReduce "val list"

definition comp_py :: "val list \<Rightarrow> error + composed" where
  "comp_py funcs =
     (if \<not> list_all callable funcs then Inl AssertionError
      else if length funcs \<le> 1 then (if funcs \<noteq> [] then Inr (Func (funcs ! 0)) else Inr Identity)
      else Inr (PartialReduce funcs))"

text \<open>
  Calling what \<open>comp\<close> returned with one positional argument \<open>x\<close>:
  \<open>partial(reduce, rapply, funcs)(x)\<close> is \<open>reduce(rapply, funcs, x)\<close>.
\<close>

definition call_composed :: "env \<Rightarrow> composed \<Rightarrow> val \<Rightarrow> history \<Rightarrow> (error + val) \<times> history" where
  "call_composed E c x h =
     (case c of
        Func f \<Rightarrow> py_call E f [x] [] h
      | Identity \<Rightarrow> (Inr (identity x), h)
      | PartialReduce funcs \<Rightarrow> reduce_py (rapply E) funcs x h)"

text \<open>
  The composition as the specification words it, \<open>f1(f2(...fn(x)...))\<close>: the function
  declared last is applied first.
\<close>

fun compose_spec :: "env \<Rightarrow> val list \<Rightarrow> val \<Rightarrow> history \<Rightarrow> (error + val) \<times> history" where
  "compose_spec E [] x h = (Inr x, h)"
| "compose_spec E (f # fs) x h =
     (case compose_spec E fs x h of
        (Inl e, h') \<Rightarrow> (Inl e, h')
      | (Inr y, h') \<Rightarrow> py_call E f [y] [] h')"

section \<open>LazyInstance\<close>

text \<open>
  The four slots of a \<open>LazyInstance\<close> object. \<open>strict\<close> is only ever tested for truth,
  so it is kept as a truth value.
\<close>

record LazyInstance =
  li_instance :: val
  li_factory :: val
  li_type_hint :: val
  li_strict :: bool

text \<open>
  \<open>__init__(self, factory, type_hint=None, strict=False)\<close>: the factory is stored as it
  is; a type hint of \<open>None\<close> defaults to the factory when the factory is a type; any
  other type hint that is no type raises \<open>TypeError\<close>.
\<close>

definition li_init :: "val \<Rightarrow> val \<Rightarrow> bool \<Rightarrow> error + LazyInstance" where
  "li_init factory type_hint strict =
     (if type_hint = PyNone then
        Inr \<lparr>li_instance = PyNone, li_factory = factory,
             li_type_hint = (if is_type factory then factory else PyNone), li_strict = strict\<rparr>
      else if \<not> is_type type_hint then Inl TypeError
      else Inr \<lparr>li_instance = PyNone, li_factory = factory,
                li_type_hint = type_hint, li_strict = strict\<rparr>)"

text \<open>
  The \<open>assert\<close> of the property \<open>_instance\<close>:
  \<open>self._li_type_hint is None or isinstance(self._li_instance, self._li_type_hint)\<close>.
\<close>

definition instance_assert :: "env \<Rightarrow> LazyInstance \<Rightarrow> error + unit" where
  "instance_assert E s =
     (if li_type_hint s = PyNone then Inr ()
      else (case py_isinstance E (li_instance s) (li_type_hint s) of
              Inl e \<Rightarrow> Inl e
            | Inr ok \<Rightarrow> if ok then Inr () else Inl AssertionError))"

text \<open>
  The getter function of the property \<open>_instance\<close> (lines 66 to 79): while the factory
  slot is set, call the factory, store the result, check it against the type hint, and
  only then clear the factory and the type hint. An exception of the factory or of the
  \<open>assert\<close> leaves the statements after it undone. What the attribute read
  \<open>self._instance\<close> gives is \<open>read_instance\<close> below.
\<close>

definition instance_prop :: "env \<Rightarrow> LazyInstance \<Rightarrow> history \<Rightarrow> (error + val) \<times> LazyInstance \<times> history" where
  "instance_prop E s h =
     (if li_factory s \<noteq> PyNone then
        (case py_call E (li_factory s) [] [] h of
           (Inl e, h1) \<Rightarrow> (Inl e, s, h1)
         | (Inr v, h1) \<Rightarrow>
             (case instance_assert E (s\<lparr>li_instance := v\<rparr>) of
                Inl e \<Rightarrow> (Inl e, s\<lparr>li_instance := v\<rparr>, h1)
              | Inr _ \<Rightarrow> (Inr v, s\<lparr>li_instance := v, li_factory := PyNone, li_type_hint := PyNone\<rparr>, h1)))
      else (Inr (li_instance s), s, h))"

definition methodcaller_getattr :: "val \<Rightarrow> getter" where
  "methodcaller_getattr x = Getattr x"

definition call_getter :: "env \<Rightarrow> getter \<Rightarrow> val \<Rightarrow> history \<Rightarrow> (error + val) \<times> history" where
  "call_getter E g obj h =
     (case g of
        Getattr x \<Rightarrow> (py_getattr E obj x, h)
      | Given f \<Rightarrow> py_call E f [obj] [] h)"

fun lift_value :: "error + val \<Rightarrow> error + bound" where
  "lift_value (Inl e) = Inl e"
| "lift_value (Inr v) = Inr (Value v)"

text \<open>
  The object that a result of \<open>__getattr__\<close> is when the module itself goes on to use
  it: a value of the environment as it is, an object of the module's own as the
  environment sees it.
\<close>

definition bound_val :: "env \<Rightarrow> bound \<Rightarrow> val" where
  "bound_val E b = (case b of Value v \<Rightarrow> v | _ \<Rightarrow> own_object E b)"

text \<open>\<open>_li_bind_method_impl(self, method_or_name)\<close>.\<close>

definition li_bind_method_impl :: "env \<Rightarrow> LazyInstance \<Rightarrow> val \<Rightarrow> history
    \<Rightarrow> (error + bound) \<times> LazyInstance \<times> history" where
  "li_bind_method_impl E s method_or_name h =
     (let g = (if \<not> callable method_or_name then methodcaller_getattr method_or_name
               else Given method_or_name)
      in if li_factory s = PyNone then
           (case call_getter E g (li_instance s) h of (r, h1) \<Rightarrow> (lift_value r, s, h1))
         else (Inr (Deferred g), s, h))"

text \<open>\<open>_bind_method(self, *methods_or_names)\<close>: the arguments arrive as one tuple.\<close>

definition bind_method :: "env \<Rightarrow> LazyInstance \<Rightarrow> val list \<Rightarrow> history
    \<Rightarrow> (error + bound) \<times> LazyInstance \<times> history" where
  "bind_method E s methods_or_names h =
     (if length methods_or_names = 1 then li_bind_method_impl E s (PyTuple methods_or_names) h
      else (Inr (MapObject methods_or_names), s, h))"

text \<open>
  The lookup on the type hint in \<open>__getattr__\<close>: \<open>getattr(self._li_type_hint, name)\<close>
  when strict, \<open>getattr(self._li_type_hint, name, None)\<close> otherwise.
\<close>

definition hint_value :: "env \<Rightarrow> LazyInstance \<Rightarrow> string \<Rightarrow> error + val" where
  "hint_value E s name =
     (if li_strict s then py_getattr E (li_type_hint s) (PyStr name)
      else py_getattr_default E (li_type_hint s) name PyNone)"

text \<open>
  The last line of \<open>__getattr__\<close>, \<open>return getattr(self._instance, name)\<close>, with the
  read of \<open>self._instance\<close> given as \<open>rd\<close>.
\<close>

definition getattr_instance :: "(LazyInstance \<Rightarrow> history \<Rightarrow> (error + val) \<times> LazyInstance \<times> history)
    \<Rightarrow> env \<Rightarrow> LazyInstance \<Rightarrow> string \<Rightarrow> history \<Rightarrow> (error + bound) \<times> LazyInstance \<times> history" where
  "getattr_instance rd E s name h =
     (case rd s h of
        (Inl e, s1, h1) \<Rightarrow> (Inl e, s1, h1)
      | (Inr inst, s1, h1) \<Rightarrow> (lift_value (py_getattr E inst (PyStr name)), s1, h1))"

text \<open>The body of \<open>__getattr__(self, name)\<close>, with the read of \<open>self._instance\<close> given.\<close>

definition getattr_body :: "(LazyInstance \<Rightarrow> history \<Rightarrow> (error + val) \<times> LazyInstance \<times> history)
    \<Rightarrow> env \<Rightarrow> LazyInstance \<Rightarrow> string \<Rightarrow> history \<Rightarrow> (error + bound) \<times> LazyInstance \<times> history" where
  "getattr_body rd E s name h =
     (if li_type_hint s \<noteq> PyNone then
        (case hint_value E s name of
           Inl e \<Rightarrow> (Inl e, s, h)
         | Inr v \<Rightarrow>
             if callable v then li_bind_method_impl E s (PyStr name) h
             else getattr_instance rd E s name h)
      else getattr_instance rd E s name h)"

text \<open>
  The attribute read \<open>self._instance\<close>. Python runs the getter of the property; when
  the getter raises \<open>AttributeError\<close>, the lookup counts as failed and Python calls
  \<open>__getattr__('_instance')\<close> instead, whose result or exception is that of the read.
  That call may read \<open>self._instance\<close> again, one level deeper. \<open>n\<close> is the number of
  such calls the interpreter's call stack still has room for: a read whose getter raises
  \<open>AttributeError\<close> with none left raises \<open>RecursionError\<close>. Every other outcome of the
  getter is the outcome of the read.
\<close>

primrec read_instance :: "nat \<Rightarrow> env \<Rightarrow> LazyInstance \<Rightarrow> history \<Rightarrow> (error + val) \<times> LazyInstance \<times> history" where
  "read_instance 0 E s h =
     (case instance_prop E s h of
        (Inl e, s1, h1) \<Rightarrow>
          (if e = AttributeError then (Inl RecursionError, s1, h1) else (Inl e, s1, h1))
      | (Inr v, s1, h1) \<Rightarrow> (Inr v, s1, h1))"
| "read_instance (Suc n) E s h =
     (case instance_prop E s h of
        (Inl e, s1, h1) \<Rightarrow>
          (if e = AttributeError then
             (case getattr_body (read_instance n E) E s1 ''_instance'' h1 of
                (Inl e2, s2, h2) \<Rightarrow> (Inl e2, s2, h2)
              | (Inr b, s2, h2) \<Rightarrow> (Inr (bound_val E b), s2, h2))
           else (Inl e, s1, h1))
      | (Inr v, s1, h1) \<Rightarrow> (Inr v, s1, h1))"

text \<open>
  \<open>__getattr__(self, name)\<close>, which Python calls for a name that the normal lookup does
  not find on the \<open>LazyInstance\<close> object itself.
\<close>

definition li_getattr :: "env \<Rightarrow> LazyInstance \<Rightarrow> string \<Rightarrow> history
    \<Rightarrow> (error + bound) \<times> LazyInstance \<times> history" where
  "li_getattr E s name h = getattr_body (read_instance (nested_reads E) E) E s name h"

text \<open>
  Calling the function \<open>lambda *args: method_or_name(self._instance)(*args)\<close> on the
  object as it is at the time of the call. The function takes positional arguments only:
  a keyword argument raises \<open>TypeError\<close> before its body runs.
\<close>

definition call_deferred :: "env \<Rightarrow> LazyInstance \<Rightarrow> getter \<Rightarrow> val list \<Rightarrow> kwargs \<Rightarrow> history
    \<Rightarrow> (error + val) \<times> LazyInstance \<times> history" where
  "call_deferred E s g args kw h =
     (if kw \<noteq> [] then (Inl TypeError, s, h)
      else (case read_instance (nested_reads E) E s h of
              (Inl e, s1, h1) \<Rightarrow> (Inl e, s1, h1)
            | (Inr inst, s1, h1) \<Rightarrow>
                (case call_getter E g inst h1 of
                   (Inl e, h2) \<Rightarrow> (Inl e, s1, h2)
                 | (Inr m, h2) \<Rightarrow> (case py_call E m args [] h2 of (r, h3) \<Rightarrow> (r, s1, h3)))))"

text \<open>Several attribute accesses in a row; the first exception ends them.\<close>

fun accesses :: "env \<Rightarrow> LazyInstance \<Rightarrow> string list \<Rightarrow> history
    \<Rightarrow> (error + bound list) \<times> LazyInstance \<times> history" where
  "accesses E s [] h = (Inr [], s, h)"
| "accesses E s (n # ns) h =
     (case li_getattr E s n h of
        (Inl e, s1, h1) \<Rightarrow> (Inl e, s1, h1)
      | (Inr b, s1, h1) \<Rightarrow>
          (case accesses E s1 ns h1 of
             (Inl e, s2, h2) \<Rightarrow> (Inl e, s2, h2)
           | (Inr bs, s2, h2) \<Rightarrow> (Inr (b # bs), s2, h2)))"

section \<open>An example environment\<close>

text \<open>
  A class \<open>Job\<close> with a method \<open>run\<close> and a class attribute \<open>title\<close>; its instance
  \<open>job\<close>, whose bound method \<open>job.run\<close> returns the tuple of its positional arguments;
  the factories \<open>make_job\<close> (returns \<open>job\<close>), \<open>make_other\<close> (returns an object that
  is no \<open>Job\<close>) and \<open>broken\<close> (raises \<open>IOError\<close>) and \<open>raises_attr\<close> (raises \<open>AttributeError\<close>); and the functions \<open>inc\<close> and \<open>dbl\<close>
  on integers.
\<close>

definition call0 :: "val \<Rightarrow> val list \<Rightarrow> kwargs \<Rightarrow> history \<Rightarrow> error + val" where
  "call0 f args kw h =
     (if f = PyFunc ''inc'' then (case args of [PyInt n] \<Rightarrow> Inr (PyInt (n + 1)) | _ \<Rightarrow> Inl TypeError)
      else if f = PyFunc ''dbl'' then (case args of [PyInt n] \<Rightarrow> Inr (PyInt (2 * n)) | _ \<Rightarrow> Inl TypeError)
      else if f = PyType ''Job'' then Inr (PyObj ''job'')
      else if f = PyFunc ''make_job'' then Inr (PyObj ''job'')
      else if f = PyFunc ''make_other'' then Inr (PyObj ''other'')
      else if f = PyFunc ''broken'' then Inl (Raised ''IOError'')
      else if f = PyFunc ''raises_attr'' then Inl AttributeError
      else if f = PyFunc ''job.run'' then Inr (PyTuple args)
      else Inl TypeError)"

definition getattr0 :: "val \<Rightarrow> string \<Rightarrow> error + val" where
  "getattr0 obj name =
     (if obj = PyType ''Job'' \<and> name = ''run'' then Inr (PyFunc ''Job.run'')
      else if obj = PyType ''Job'' \<and> name = ''title'' then Inr (PyStr ''untitled'')
      else if obj = PyObj ''job'' \<and> name = ''run'' then Inr (PyFunc ''job.run'')
      else if obj = PyObj ''job'' \<and> name = ''title'' then Inr (PyStr ''nightly'')
      else Inl AttributeError)"

definition isinstance0 :: "val \<Rightarrow> val \<Rightarrow> bool" where
  "isinstance0 v T = (v = PyObj ''job'' \<and> T = PyType ''Job'')"


text \<open>
  Objects of the module's own appear as one function object, and the call stack has room
  for 295 nested fallbacks of a read of \<open>self._instance\<close>.
\<close>

definition E0 :: env where
  "E0 = \<lparr>call_of = call0, getattr_of = getattr0, isinstance_of = isinstance0,
          own_object = (\<lambda>b. PyObj ''function''), nested_reads = 295\<rparr>"

text \<open>
  Proxies over this environment, as \<open>__init__\<close> builds them: \<open>s_job\<close> is
  \<open>LazyInstance(make_job, Job)\<close>, \<open>s_strict\<close> is \<open>LazyInstance(make_job, Job, True)\<close>,
  \<open>s_other\<close> is \<open>LazyInstance(make_other, Job)\<close>, \<open>s_broken\<close> is
  \<open>LazyInstance(broken)\<close>, \<open>s_int\<close> is \<open>LazyInstance(5)\<close> and \<open>s_none\<close> is
  \<open>LazyInstance(None)\<close> and \<open>s_attr\<close> is \<open>LazyInstance(raises_attr, Job)\<close>; \<open>s_done\<close> is \<open>s_job\<close> after its instance was created.
\<close>

definition s_job :: LazyInstance where
  "s_job = \<lparr>li_instance = PyNone, li_factory = PyFunc ''make_job'',
            li_type_hint = PyType ''Job'', li_strict = False\<rparr>"

definition s_strict :: LazyInstance where
  "s_strict = \<lparr>li_instance = PyNone, li_factory = PyFunc ''make_job'',
               li_type_hint = PyType ''Job'', li_strict = True\<rparr>"

definition s_other :: LazyInstance where
  "s_other = \<lparr>li_instance = PyNone, li_factory = PyFunc ''make_other'',
              li_type_hint = PyType ''Job'', li_strict = False\<rparr>"

definition s_broken :: LazyInstance where
  "s_broken = \<lparr>li_instance = PyNone, li_factory = PyFunc ''broken'',
               li_type_hint = PyNone, li_strict = False\<rparr>"

definition s_int :: LazyInstance where
  "s_int = \<lparr>li_instance = PyNone, li_factory = PyInt 5,
            li_type_hint = PyNone, li_strict = False\<rparr>"

definition s_none :: LazyInstance where
  "s_none = \<lparr>li_instance = PyNone, li_factory = PyNone,
             li_type_hint = PyNone, li_strict = False\<rparr>"

definition s_done :: LazyInstance where
  "s_done = \<lparr>li_instance = PyObj ''job'', li_factory = PyNone,
             li_type_hint = PyNone, li_strict = False\<rparr>"

definition s_attr :: LazyInstance where
  "s_attr = \<lparr>li_instance = PyNone, li_factory = PyFunc ''raises_attr'',
             li_type_hint = PyType ''Job'', li_strict = False\<rparr>"

section \<open>Auxiliary facts\<close>

lemmas env0_defs = E0_def call0_def getattr0_def isinstance0_def

lemma callable_not_None: "callable f \<Longrightarrow> f \<noteq> PyNone"
  by (auto simp: callable_def)

lemma compose_spec_snoc:
  "compose_spec E (fs @ [f]) x h =
     (case py_call E f [x] [] h of
        (Inl e, h1) \<Rightarrow> (Inl e, h1)
      | (Inr y, h1) \<Rightarrow> compose_spec E fs y h1)"
proof (induction fs arbitrary: x h)
  case Nil
  show ?case by (simp split: prod.splits sum.splits)
next
  case (Cons g gs)
  show ?case by (simp add: Cons.IH split: prod.splits sum.splits)
qed

lemma reduce_rapply_rev:
  "reduce_py (rapply E) funcs x h = compose_spec E (rev funcs) x h"
proof (induction funcs arbitrary: x h)
  case Nil
  show ?case by simp
next
  case (Cons f fs)
  have step: "rapply E x f h = py_call E f [x] [] h"
    by (simp add: rapply_def)
  show ?case
    by (simp add: compose_spec_snoc Cons.IH step split: prod.splits sum.splits)
qed

lemma instance_prop_constructed:
  "li_factory s = PyNone \<Longrightarrow> instance_prop E s h = (Inr (li_instance s), s, h)"
  by (simp add: instance_prop_def)

lemma instance_assert_hint:
  "li_type_hint s = PyType t \<Longrightarrow>
   instance_assert E s =
     (if isinstance_of E (li_instance s) (PyType t) then Inr () else Inl AssertionError)"
  by (simp add: instance_assert_def py_isinstance_def is_type_def)

lemma instance_prop_success:
  assumes "callable (li_factory s)"
    and "call_of E (li_factory s) [] [] h = Inr v"
    and "instance_assert E (s\<lparr>li_instance := v\<rparr>) = Inr ()"
  shows "instance_prop E s h =
           (Inr v, s\<lparr>li_instance := v, li_factory := PyNone, li_type_hint := PyNone\<rparr>,
            h @ [(li_factory s, [], [])])"
  using assms callable_not_None [of "li_factory s"]
  by (simp add: instance_prop_def py_call_def)

lemma instance_prop_mismatch:
  assumes "li_type_hint s = PyType t"
    and "callable (li_factory s)"
    and "call_of E (li_factory s) [] [] h = Inr v"
    and "\<not> isinstance_of E v (PyType t)"
  shows "instance_prop E s h =
           (Inl AssertionError, s\<lparr>li_instance := v\<rparr>, h @ [(li_factory s, [], [])])"
  using assms callable_not_None [of "li_factory s"]
  by (simp add: instance_prop_def py_call_def instance_assert_hint)

text \<open>
  Unless the getter of the property raises \<open>AttributeError\<close>, the read of
  \<open>self._instance\<close> is the getter's outcome, whatever room the call stack has.
\<close>

lemma read_instance_plain:
  assumes "fst (instance_prop E s h) \<noteq> Inl AttributeError"
  shows "read_instance n E s h = instance_prop E s h"
  using assms by (cases n) (auto split: prod.splits sum.splits)

lemma read_instance_constructed:
  "li_factory s = PyNone \<Longrightarrow> read_instance n E s h = (Inr (li_instance s), s, h)"
  by (simp add: read_instance_plain instance_prop_constructed)

lemma read_instance_success:
  assumes "callable (li_factory s)"
    and "call_of E (li_factory s) [] [] h = Inr v"
    and "instance_assert E (s\<lparr>li_instance := v\<rparr>) = Inr ()"
  shows "read_instance n E s h =
           (Inr v, s\<lparr>li_instance := v, li_factory := PyNone, li_type_hint := PyNone\<rparr>,
            h @ [(li_factory s, [], [])])"
  by (simp add: read_instance_plain instance_prop_success [OF assms])

lemma read_instance_mismatch:
  assumes "li_type_hint s = PyType t"
    and "callable (li_factory s)"
    and "call_of E (li_factory s) [] [] h = Inr v"
    and "\<not> isinstance_of E v (PyType t)"
  shows "read_instance n E s h =
           (Inl AssertionError, s\<lparr>li_instance := v\<rparr>, h @ [(li_factory s, [], [])])"
  by (simp add: read_instance_plain instance_prop_mismatch [OF assms])

text \<open>
  Once the factory slot is \<open>None\<close>, no attribute access changes the object or calls
  anything.
\<close>

lemma li_getattr_constructed:
  "li_factory s = PyNone \<Longrightarrow> snd (li_getattr E s name h) = (s, h)"
  by (auto simp: li_getattr_def getattr_body_def li_bind_method_impl_def callable_def
      methodcaller_getattr_def call_getter_def getattr_instance_def read_instance_constructed
      split: sum.splits prod.splits)

lemma accesses_constructed:
  "li_factory s = PyNone \<Longrightarrow> snd (accesses E s names h) = (s, h)"
proof (induction names)
  case Nil
  show ?case by simp
next
  case (Cons n ns)
  obtain r where r: "li_getattr E s n h = (r, s, h)"
    using li_getattr_constructed [OF Cons.prems, of E n h] by (cases "li_getattr E s n h") auto
  obtain q where q: "accesses E s ns h = (q, s, h)"
    using Cons.IH [OF Cons.prems] by (cases "accesses E s ns h") auto
  show ?case by (simp add: r q split: sum.splits)
qed

text \<open>
  When \<open>_instance\<close> returns a value, the factory slot is \<open>None\<close> from then on, so the
  factory is not called by any later access.
\<close>

lemma instance_prop_returns_constructed:
  assumes "instance_prop E s h = (Inr v, s1, h1)"
  shows "li_factory s1 = PyNone \<and> li_instance s1 = v \<and> snd (accesses E s1 names h1) = (s1, h1)"
proof -
  have slots: "li_factory s1 = PyNone \<and> li_instance s1 = v"
    using assms
    by (auto simp: instance_prop_def split: if_splits prod.splits sum.splits)
  then show ?thesis
    using accesses_constructed [of s1 E names h1] by simp
qed

text \<open>
  When the factory raises, the getter of \<open>_instance\<close> passes the exception on with
  every slot as it was: the factory slot is still set for the next access.
\<close>

lemma instance_prop_factory_raises:
  assumes "callable (li_factory s)"
    and "call_of E (li_factory s) [] [] h = Inl e"
  shows "instance_prop E s h = (Inl e, s, h @ [(li_factory s, [], [])])"
  using assms callable_not_None [of "li_factory s"]
  by (simp add: instance_prop_def py_call_def)

text \<open>
  \<open>_bind_method\<close> with a single item, whatever the item is: on an unconstructed proxy
  the deferred caller holds \<open>getattr\<close> with the one-element tuple for a name, and calling
  it raises \<open>TypeError\<close> as soon as the instance has been resolved.
\<close>

lemma bind_method_single_item:
  assumes "li_factory s \<noteq> PyNone"
  shows "bind_method E s [item] h = (Inr (Deferred (Getattr (PyTuple [item]))), s, h)"
  using assms
  by (simp add: bind_method_def li_bind_method_impl_def callable_def methodcaller_getattr_def)

lemma call_deferred_tuple_name:
  assumes "instance_prop E s h = (Inr v, s1, h1)"
  shows "call_deferred E s (Getattr (PyTuple items)) args [] h = (Inl TypeError, s1, h1)"
  using assms
  by (simp add: call_deferred_def call_getter_def py_getattr_def read_instance_plain)

text \<open>
  A factory that raises \<open>AttributeError\<close>, on a proxy whose \<open>__getattr__\<close> goes on to
  read \<open>self._instance\<close> for the name \<open>_instance\<close> (no type hint, or a type hint without
  that name and not strict): every read falls back to \<open>__getattr__\<close>, which reads
  again, and the factory is called once per level until the call stack is full.
\<close>

lemma read_instance_recursion:
  assumes "callable (li_factory s)"
    and "\<forall>k. call_of E (li_factory s) [] [] k = Inl AttributeError"
    and "li_type_hint s = PyNone \<or> hint_value E s ''_instance'' = Inr PyNone"
  shows "read_instance n E s h =
           (Inl RecursionError, s, h @ replicate (Suc n) (li_factory s, [], []))"
proof (induction n arbitrary: h)
  case 0
  have "instance_prop E s h = (Inl AttributeError, s, h @ [(li_factory s, [], [])])"
    using assms(1,2) by (simp add: instance_prop_factory_raises)
  then show ?case by simp
next
  case (Suc n)
  have getter: "instance_prop E s h = (Inl AttributeError, s, h @ [(li_factory s, [], [])])"
    using assms(1,2) by (simp add: instance_prop_factory_raises)
  have hook: "getattr_body (read_instance n E) E s ''_instance'' (h @ [(li_factory s, [], [])]) =
      (Inl RecursionError, s,
       (h @ [(li_factory s, [], [])]) @ replicate (Suc n) (li_factory s, [], []))"
    using assms(3) Suc.IH [of "h @ [(li_factory s, [], [])]"]
    by (cases "li_type_hint s = PyNone")
       (simp_all add: getattr_body_def getattr_instance_def callable_def)
  show ?case
    by (simp add: getter hook replicate_app_Cons_same)
qed


text \<open>
  So at \<open>LazyInstance(raises_attr, Job)\<close> the access \<open>p.foo\<close> ends in
  \<open>RecursionError\<close> after one call of the factory for each of the 296 reads.
\<close>

lemma attribute_error_factory_recurses:
  "li_getattr E0 s_attr ''foo'' [] =
     (Inl RecursionError, s_attr, replicate 296 (PyFunc ''raises_attr'', [], []))"
proof -
  have lookups: "hint_value E0 s_attr ''foo'' = Inr PyNone"
    "hint_value E0 s_attr ''_instance'' = Inr PyNone"
    by (simp_all add: hint_value_def py_getattr_default_def s_attr_def env0_defs)
  have factory: "callable (li_factory s_attr)"
    "\<forall>k. call_of E0 (li_factory s_attr) [] [] k = Inl AttributeError"
    by (simp_all add: s_attr_def callable_def env0_defs)
  have "read_instance 295 E0 s_attr [] =
      (Inl RecursionError, s_attr, [] @ replicate (Suc 295) (li_factory s_attr, [], []))"
    using factory lookups(2) by (intro read_instance_recursion) simp_all
  then show ?thesis
    using lookups(1)
    by (simp add: li_getattr_def getattr_body_def getattr_instance_def callable_def s_attr_def
        E0_def)
qed

section \<open>comp: order of application and degenerate cases\<close>

text \<open>
  C1 (as amended). \<open>comp(f1, f2, ..., fn)\<close> with callable arguments returns a callable
  \<open>g\<close> with \<open>g(x) == fn(...f2(f1(x))...)\<close>: the functions are applied left to right
  through the declared sequence, the function declared first being applied first to the
  input; so \<open>comp(f, g)(x) == g(f(x))\<close>. In the terms of the specification's formula,
  \<open>comp(f1, ..., fn)\<close> is the composition of the reversed sequence. This holds for the
  empty sequence, a single function and longer sequences alike, exceptions and the order
  of the calls included.
\<close>

theorem comp_left_to_right:
  assumes "comp_py funcs = Inr c"
  shows "call_composed E c x h = compose_spec E (rev funcs) x h"
proof (cases funcs)
  case Nil
  with assms show ?thesis
    by (auto simp: comp_py_def call_composed_def identity_def)
next
  case (Cons f fs)
  note outer = Cons
  show ?thesis
  proof (cases fs)
    case Nil
    with outer assms show ?thesis
      by (auto simp: comp_py_def call_composed_def split: if_splits prod.splits sum.splits)
  next
    case (Cons g gs)
    with outer assms have "c = PartialReduce funcs"
      by (auto simp: comp_py_def split: if_splits)
    then show ?thesis
      by (simp add: call_composed_def reduce_rapply_rev)
  qed
qed

text \<open>
  At \<open>comp(inc, dbl)(3)\<close> the theorem gives \<open>dbl(inc(3)) = 8\<close>, with \<open>inc\<close> called
  first.
\<close>

theorem comp_left_to_right_witness:
  "comp_py [PyFunc ''inc'', PyFunc ''dbl''] = Inr (PartialReduce [PyFunc ''inc'', PyFunc ''dbl''])
   \<and> call_composed E0 (PartialReduce [PyFunc ''inc'', PyFunc ''dbl'']) (PyInt 3) [] =
       compose_spec E0 (rev [PyFunc ''inc'', PyFunc ''dbl'']) (PyInt 3) []
   \<and> compose_spec E0 (rev [PyFunc ''inc'', PyFunc ''dbl'']) (PyInt 3) [] =
       (Inr (PyInt 8), [(PyFunc ''inc'', [PyInt 3], []), (PyFunc ''dbl'', [PyInt 4], [])])"
proof -
  have built: "comp_py [PyFunc ''inc'', PyFunc ''dbl''] =
      Inr (PartialReduce [PyFunc ''inc'', PyFunc ''dbl''])"
    by (simp add: comp_py_def callable_def)
  have run: "compose_spec E0 (rev [PyFunc ''inc'', PyFunc ''dbl'']) (PyInt 3) [] =
      (Inr (PyInt 8), [(PyFunc ''inc'', [PyInt 3], []), (PyFunc ''dbl'', [PyInt 4], [])])"
    by (simp add: py_call_def callable_def env0_defs)
  show ?thesis
    using built run comp_left_to_right [OF built, of E0 "PyInt 3" "[]"] by simp
qed

text \<open>
  The claim as the specification states it, \<open>compose(f, g)(x) == f(g(x))\<close>, fails at
  \<open>f = inc\<close>, \<open>g = dbl\<close>, \<open>x = 3\<close>: the code returns \<open>8\<close>, the formula gives \<open>7\<close>.
\<close>

theorem comp_order_counterexample:
  "call_composed E0 (PartialReduce [PyFunc ''inc'', PyFunc ''dbl'']) (PyInt 3) [] \<noteq>
     compose_spec E0 [PyFunc ''inc'', PyFunc ''dbl''] (PyInt 3) []
   \<and> comp_py [PyFunc ''inc'', PyFunc ''dbl''] = Inr (PartialReduce [PyFunc ''inc'', PyFunc ''dbl''])
   \<and> fst (call_composed E0 (PartialReduce [PyFunc ''inc'', PyFunc ''dbl'']) (PyInt 3) []) = Inr (PyInt 8)
   \<and> fst (compose_spec E0 [PyFunc ''inc'', PyFunc ''dbl''] (PyInt 3) []) = Inr (PyInt 7)"
  by (simp add: comp_py_def callable_def call_composed_def rapply_def py_call_def env0_defs)

text \<open>
  C9. \<open>comp()\<close> returns \<open>identity\<close>, which applied to any value \<open>x\<close> returns \<open>x\<close>
  unchanged and calls nothing; \<open>comp(f)\<close> for a function \<open>f\<close> returns the object \<open>f\<close>
  itself, with no wrapper around it.
\<close>

theorem comp_degenerate:
  "callable f \<Longrightarrow>
     comp_py [] = Inr Identity
   \<and> call_composed E Identity x h = (Inr x, h)
   \<and> comp_py [f] = Inr (Func f)"
  by (simp add: comp_py_def call_composed_def identity_def)

theorem comp_degenerate_witness:
  "callable (PyFunc ''inc'')
   \<and> comp_py [] = Inr Identity
   \<and> call_composed E0 Identity (PyInt 3) [] = (Inr (PyInt 3), [])
   \<and> comp_py [PyFunc ''inc''] = Inr (Func (PyFunc ''inc''))"
  using comp_degenerate [of "PyFunc ''inc''" E0 "PyInt 3" "[]"]
  by (simp add: callable_def)

section \<open>Failures at construction time\<close>

text \<open>
  C3. Both contract violations fail when the object is built. \<open>comp\<close> given any argument
  that is not callable fails in its first statement, the \<open>assert\<close>, whatever the other
  arguments are; \<open>comp\<close> itself calls none of its arguments, so no call has been made.
  The \<open>LazyInstance\<close> constructor given a type hint that is neither \<open>None\<close> nor a type
  raises \<open>TypeError\<close> and returns no object. The specification's kind \<open>TypeKind\<close> names
  these two construction-time failures; in Python the one of \<open>comp\<close> is the
  \<open>AssertionError\<close> of the \<open>assert\<close> statement (assertions enabled), the one of the
  constructor a \<open>TypeError\<close>.
\<close>

theorem construction_type_errors:
  "(\<not> list_all callable funcs \<longrightarrow> comp_py funcs = Inl AssertionError)
   \<and> (type_hint \<noteq> PyNone \<and> \<not> is_type type_hint \<longrightarrow>
        li_init factory type_hint strict = Inl TypeError)"
  by (simp add: comp_py_def li_init_def)

theorem construction_type_errors_witness:
  "\<not> list_all callable [PyFunc ''inc'', PyInt 1]
   \<and> comp_py [PyFunc ''inc'', PyInt 1] = Inl AssertionError
   \<and> PyInt 1 \<noteq> PyNone \<and> \<not> is_type (PyInt 1)
   \<and> li_init (PyFunc ''make_job'') (PyInt 1) False = Inl TypeError"
  using construction_type_errors [of "[PyFunc ''inc'', PyInt 1]" "PyInt 1" "PyFunc ''make_job''" False]
  by (simp add: callable_def is_type_def)

section \<open>LazyInstance: creating the instance\<close>

text \<open>
  C4. A proxy has the type hint \<open>T\<close> and its factory returns an object that is no
  instance of \<open>T\<close>. Then the property \<open>_instance\<close>, and with it every attribute access
  that reaches it (the lookup on the type hint gave a value that is not callable), fails
  with the \<open>AssertionError\<close> of the type check, the specification's \<open>TypeMismatch\<close>. The
  failure is passed on as it is: the factory was called once in that access, nothing
  was caught and nothing tried again.
\<close>

theorem type_mismatch_raises:
  assumes "li_type_hint s = PyType t"
    and "callable (li_factory s)"
    and "call_of E (li_factory s) [] [] h = Inr v"
    and "\<not> isinstance_of E v (PyType t)"
    and "hint_value E s name = Inr u"
    and "\<not> callable u"
  shows "instance_prop E s h =
           (Inl AssertionError, s\<lparr>li_instance := v\<rparr>, h @ [(li_factory s, [], [])])
       \<and> li_getattr E s name h =
           (Inl AssertionError, s\<lparr>li_instance := v\<rparr>, h @ [(li_factory s, [], [])])"
  using assms instance_prop_mismatch [OF assms(1-4)] read_instance_mismatch [OF assms(1-4)]
  by (simp add: li_getattr_def getattr_body_def getattr_instance_def)

theorem type_mismatch_raises_witness:
  "li_init (PyFunc ''make_other'') (PyType ''Job'') False = Inr s_other
   \<and> hint_value E0 s_other ''title'' = Inr (PyStr ''untitled'')
   \<and> \<not> callable (PyStr ''untitled'')
   \<and> call_of E0 (PyFunc ''make_other'') [] [] [] = Inr (PyObj ''other'')
   \<and> \<not> isinstance_of E0 (PyObj ''other'') (PyType ''Job'')
   \<and> li_getattr E0 s_other ''title'' [] =
       (Inl AssertionError, s_other\<lparr>li_instance := PyObj ''other''\<rparr>, [(PyFunc ''make_other'', [], [])])"
  using type_mismatch_raises
          [of s_other "''Job''" E0 "[]" "PyObj ''other''" "''title''" "PyStr ''untitled''"]
  by (simp add: s_other_def li_init_def is_type_def hint_value_def py_getattr_default_def
      callable_def env0_defs)

text \<open>
  C5 (the code at the failing inputs). The factory is called again by every access that
  follows a failed one. With the factory \<open>broken\<close>, which raises, two accesses call it
  twice; so do two accesses with the factory \<open>make_other\<close> under the type hint \<open>Job\<close>,
  where the \<open>assert\<close> fails after the factory has returned: in both cases the factory
  slot is still set when the exception leaves \<open>_instance\<close>.
\<close>

theorem factory_invoked_again_after_failure:
  "li_init (PyFunc ''broken'') PyNone False = Inr s_broken
   \<and> li_getattr E0 s_broken ''title'' [] =
       (Inl (Raised ''IOError''), s_broken, [(PyFunc ''broken'', [], [])])
   \<and> li_getattr E0 s_broken ''title'' [(PyFunc ''broken'', [], [])] =
       (Inl (Raised ''IOError''), s_broken, [(PyFunc ''broken'', [], []), (PyFunc ''broken'', [], [])])
   \<and> li_init (PyFunc ''make_other'') (PyType ''Job'') False = Inr s_other
   \<and> li_getattr E0 s_other ''title'' [] =
       (Inl AssertionError, s_other\<lparr>li_instance := PyObj ''other''\<rparr>, [(PyFunc ''make_other'', [], [])])
   \<and> li_getattr E0 (s_other\<lparr>li_instance := PyObj ''other''\<rparr>) ''title'' [(PyFunc ''make_other'', [], [])] =
       (Inl AssertionError, s_other\<lparr>li_instance := PyObj ''other''\<rparr>,
        [(PyFunc ''make_other'', [], []), (PyFunc ''make_other'', [], [])])"
  by (simp add: s_broken_def s_other_def li_init_def is_type_def li_getattr_def getattr_body_def
      hint_value_def py_getattr_default_def callable_def getattr_instance_def read_instance_plain
      instance_prop_def py_call_def instance_assert_def py_isinstance_def env0_defs)

section \<open>LazyInstance: attribute access\<close>

text \<open>
  C6. A proxy is strict and has the type hint \<open>T\<close> (the type hint slot holds \<open>T\<close> from
  construction until the instance is created), and \<open>name\<close> is absent from \<open>T\<close>
  (\<open>getattr(T, name)\<close> raises \<open>AttributeError\<close>). Then the access \<open>proxy.name\<close> raises
  that \<open>AttributeError\<close>, the specification's \<open>AttributeNotFound\<close>; the object is left as
  it was and nothing is called, so the factory is not invoked and the proxy stays
  unconstructed.
\<close>

theorem strict_missing_attribute:
  assumes "li_strict s"
    and "li_type_hint s = PyType t"
    and "getattr_of E (PyType t) name = Inl AttributeError"
  shows "li_getattr E s name h = (Inl AttributeError, s, h)"
  using assms by (simp add: li_getattr_def getattr_body_def hint_value_def py_getattr_def)

theorem strict_missing_attribute_witness:
  "li_init (PyFunc ''make_job'') (PyType ''Job'') True = Inr s_strict
   \<and> getattr_of E0 (PyType ''Job'') ''foo'' = Inl AttributeError
   \<and> li_getattr E0 s_strict ''foo'' [] = (Inl AttributeError, s_strict, [])"
  using strict_missing_attribute [of s_strict "''Job''" E0 "''foo''" "[]"]
  by (simp add: s_strict_def li_init_def is_type_def env0_defs)

text \<open>
  C7. A proxy is not strict and has the type hint \<open>T\<close>, and \<open>name\<close> is absent from
  \<open>T\<close>. Then the lookup on the type hint raises nothing: it gives \<open>None\<close>, which is not
  callable, so the access goes on to \<open>getattr(self._instance, name)\<close>. Where the factory
  returns an instance of \<open>T\<close>, that access calls the factory exactly once, leaves the
  proxy constructed, and returns the value or raises the exception of the instance's own
  \<open>getattr(instance, name)\<close>, whatever it is.
\<close>

theorem nonstrict_missing_attribute_delegates:
  assumes "\<not> li_strict s"
    and "li_type_hint s = PyType t"
    and "getattr_of E (PyType t) name = Inl AttributeError"
  shows "hint_value E s name = Inr PyNone
       \<and> (callable (li_factory s) \<and> call_of E (li_factory s) [] [] h = Inr v
            \<and> isinstance_of E v (PyType t) \<longrightarrow>
          li_getattr E s name h =
            (lift_value (getattr_of E v name),
             s\<lparr>li_instance := v, li_factory := PyNone, li_type_hint := PyNone\<rparr>,
             h @ [(li_factory s, [], [])]))"
proof -
  have lookup: "hint_value E s name = Inr PyNone"
    using assms by (simp add: hint_value_def py_getattr_default_def)
  have access: "li_getattr E s name h =
            (lift_value (getattr_of E v name),
             s\<lparr>li_instance := v, li_factory := PyNone, li_type_hint := PyNone\<rparr>,
             h @ [(li_factory s, [], [])])"
    if "callable (li_factory s)" "call_of E (li_factory s) [] [] h = Inr v"
       "isinstance_of E v (PyType t)"
  proof -
    have "instance_assert E (s\<lparr>li_instance := v\<rparr>) = Inr ()"
      using assms(2) that(3) by (simp add: instance_assert_hint)
    then have "read_instance (nested_reads E) E s h =
           (Inr v, s\<lparr>li_instance := v, li_factory := PyNone, li_type_hint := PyNone\<rparr>,
            h @ [(li_factory s, [], [])])"
      using that(1,2) by (simp add: read_instance_success)
    then show ?thesis
      using assms(2) lookup
      by (simp add: li_getattr_def getattr_body_def getattr_instance_def callable_def
          py_getattr_def)
  qed
  show ?thesis
    using lookup access by blast
qed

theorem nonstrict_missing_attribute_delegates_witness:
  "li_init (PyFunc ''make_job'') (PyType ''Job'') False = Inr s_job
   \<and> getattr_of E0 (PyType ''Job'') ''foo'' = Inl AttributeError
   \<and> hint_value E0 s_job ''foo'' = Inr PyNone
   \<and> getattr_of E0 (PyObj ''job'') ''foo'' = Inl AttributeError
   \<and> li_getattr E0 s_job ''foo'' [] =
       (Inl AttributeError,
        s_job\<lparr>li_instance := PyObj ''job'', li_factory := PyNone, li_type_hint := PyNone\<rparr>,
        [(PyFunc ''make_job'', [], [])])"
  using nonstrict_missing_attribute_delegates
          [of s_job "''Job''" E0 "''foo''" "[]" "PyObj ''job''"]
  by (simp add: s_job_def li_init_def is_type_def callable_def env0_defs)

text \<open>
  C8 (as amended). A proxy is unconstructed and its type hint \<open>T\<close> resolves \<open>name\<close> to a
  callable member. Then the access \<open>proxy.name\<close> returns a deferred caller and neither
  changes the object nor calls anything. Called with positional arguments, the deferred
  caller makes sure the instance exists and calls \<open>getattr(instance, name)\<close> with exactly
  those arguments, returning its result: on the unconstructed proxy the factory is called
  once, before the method; on a proxy constructed in the meantime only the method is
  called. The deferred caller takes no keyword arguments: called with any, it raises
  \<open>TypeError\<close> before the factory or the method is invoked.
\<close>

theorem deferred_method_positional:
  assumes "li_factory s \<noteq> PyNone"
    and "li_type_hint s = PyType t"
    and "hint_value E s name = Inr u"
    and "callable u"
  shows "li_getattr E s name h = (Inr (Deferred (Getattr (PyStr name))), s, h)
       \<and> (callable (li_factory s) \<and> call_of E (li_factory s) [] [] h = Inr v
            \<and> isinstance_of E v (PyType t) \<and> getattr_of E v name = Inr m \<and> callable m \<longrightarrow>
          call_deferred E s (Getattr (PyStr name)) args [] h =
            (call_of E m args [] (h @ [(li_factory s, [], [])]),
             s\<lparr>li_instance := v, li_factory := PyNone, li_type_hint := PyNone\<rparr>,
             h @ [(li_factory s, [], []), (m, args, [])]))
       \<and> (li_factory s1 = PyNone \<and> getattr_of E (li_instance s1) name = Inr m \<and> callable m \<longrightarrow>
          call_deferred E s1 (Getattr (PyStr name)) args [] h1 =
            (call_of E m args [] h1, s1, h1 @ [(m, args, [])]))
       \<and> (kw \<noteq> [] \<longrightarrow>
          call_deferred E s1 (Getattr (PyStr name)) args kw h1 = (Inl TypeError, s1, h1))"
proof -
  have access: "li_getattr E s name h = (Inr (Deferred (Getattr (PyStr name))), s, h)"
    using assms
    by (simp add: li_getattr_def getattr_body_def li_bind_method_impl_def methodcaller_getattr_def
        callable_def)
  have first_call: "call_deferred E s (Getattr (PyStr name)) args [] h =
            (call_of E m args [] (h @ [(li_factory s, [], [])]),
             s\<lparr>li_instance := v, li_factory := PyNone, li_type_hint := PyNone\<rparr>,
             h @ [(li_factory s, [], []), (m, args, [])])"
    if "callable (li_factory s)" "call_of E (li_factory s) [] [] h = Inr v"
       "isinstance_of E v (PyType t)" "getattr_of E v name = Inr m" "callable m"
  proof -
    have "instance_assert E (s\<lparr>li_instance := v\<rparr>) = Inr ()"
      using assms(2) that(3) by (simp add: instance_assert_hint)
    then have "read_instance (nested_reads E) E s h =
           (Inr v, s\<lparr>li_instance := v, li_factory := PyNone, li_type_hint := PyNone\<rparr>,
            h @ [(li_factory s, [], [])])"
      using that(1,2) by (simp add: read_instance_success)
    then show ?thesis
      using that(4,5) by (simp add: call_deferred_def call_getter_def py_getattr_def py_call_def)
  qed
  have later_call: "call_deferred E s1 (Getattr (PyStr name)) args [] h1 =
            (call_of E m args [] h1, s1, h1 @ [(m, args, [])])"
    if "li_factory s1 = PyNone" "getattr_of E (li_instance s1) name = Inr m" "callable m"
    using that
    by (simp add: call_deferred_def read_instance_constructed call_getter_def py_getattr_def
        py_call_def)
  have rejected: "call_deferred E s1 (Getattr (PyStr name)) args kw h1 = (Inl TypeError, s1, h1)"
    if "kw \<noteq> []"
    using that by (simp add: call_deferred_def)
  show ?thesis
    using access first_call later_call rejected by blast
qed

theorem deferred_method_positional_witness:
  "li_init (PyFunc ''make_job'') (PyType ''Job'') False = Inr s_job
   \<and> hint_value E0 s_job ''run'' = Inr (PyFunc ''Job.run'')
   \<and> li_getattr E0 s_job ''run'' [] = (Inr (Deferred (Getattr (PyStr ''run''))), s_job, [])
   \<and> call_deferred E0 s_job (Getattr (PyStr ''run'')) [PyInt 1, PyInt 2] [] [] =
        (Inr (PyTuple [PyInt 1, PyInt 2]), s_done,
         [(PyFunc ''make_job'', [], []), (PyFunc ''job.run'', [PyInt 1, PyInt 2], [])])
   \<and> call_deferred E0 s_done (Getattr (PyStr ''run'')) [PyInt 3] [] [(PyFunc ''make_job'', [], [])] =
        (Inr (PyTuple [PyInt 3]), s_done,
         [(PyFunc ''make_job'', [], []), (PyFunc ''job.run'', [PyInt 3], [])])
   \<and> call_deferred E0 s_done (Getattr (PyStr ''run'')) [PyInt 3] [(''verbose'', PyInt 1)]
        [(PyFunc ''make_job'', [], [])] = (Inl TypeError, s_done, [(PyFunc ''make_job'', [], [])])"
  using deferred_method_positional
          [of s_job "''Job''" E0 "''run''" "PyFunc ''Job.run''" "[]" "PyObj ''job''" "PyFunc ''job.run''"
              "[PyInt 1, PyInt 2]"]
        deferred_method_positional
          [of s_job "''Job''" E0 "''run''" "PyFunc ''Job.run''" "[]" "PyObj ''job''" "PyFunc ''job.run''"
              "[PyInt 3]" s_done "[(PyFunc ''make_job'', [], [])]" "[(''verbose'', PyInt 1)]"]
  by (simp add: s_job_def s_done_def li_init_def is_type_def callable_def hint_value_def
      py_getattr_default_def env0_defs)

text \<open>
  The claim as the specification states it, for every list of positional and keyword
  arguments, fails at \<open>proxy.run(1, verbose=1)\<close>: the deferred caller raises \<open>TypeError\<close>,
  the factory slot is still set and nothing was called.
\<close>

theorem deferred_keyword_counterexample:
  "li_getattr E0 s_job ''run'' [] = (Inr (Deferred (Getattr (PyStr ''run''))), s_job, [])
   \<and> call_deferred E0 s_job (Getattr (PyStr ''run'')) [PyInt 1] [(''verbose'', PyInt 1)] [] =
        (Inl TypeError, s_job, [])
   \<and> li_factory s_job = PyFunc ''make_job''"
  by (simp add: s_job_def li_getattr_def getattr_body_def hint_value_def py_getattr_default_def
      callable_def li_bind_method_impl_def methodcaller_getattr_def call_deferred_def env0_defs)

section \<open>LazyInstance: binding a method by name\<close>

text \<open>
  C2 (the code at the failing input). \<open>_bind_method("run")\<close> on the unconstructed proxy
  \<open>LazyInstance(make_job, Job)\<close> returns a deferred caller and calls nothing, but the
  getter it holds is \<open>getattr\<close> with the whole argument tuple \<open>("run",)\<close> for a name.
  Its first invocation calls the factory once and then raises \<open>TypeError\<close>; the method
  \<open>run\<close> is never called. A second invocation raises the same error with no further call.
  The sibling path \<open>_li_bind_method_impl("run")\<close>, which receives the name itself, gives
  a deferred caller that calls the factory and then \<open>run\<close>.
\<close>

theorem bind_method_single_name_fails:
  "bind_method E0 s_job [PyStr ''run''] [] =
     (Inr (Deferred (Getattr (PyTuple [PyStr ''run'']))), s_job, [])
   \<and> call_deferred E0 s_job (Getattr (PyTuple [PyStr ''run''])) [] [] [] =
       (Inl TypeError, s_done, [(PyFunc ''make_job'', [], [])])
   \<and> call_deferred E0 s_done (Getattr (PyTuple [PyStr ''run''])) [] [] [(PyFunc ''make_job'', [], [])] =
       (Inl TypeError, s_done, [(PyFunc ''make_job'', [], [])])
   \<and> li_bind_method_impl E0 s_job (PyStr ''run'') [] =
       (Inr (Deferred (Getattr (PyStr ''run''))), s_job, [])
   \<and> call_deferred E0 s_job (Getattr (PyStr ''run'')) [] [] [] =
       (Inr (PyTuple []), s_done, [(PyFunc ''make_job'', [], []), (PyFunc ''job.run'', [], [])])"
  by (simp add: s_job_def s_done_def bind_method_def li_bind_method_impl_def callable_def
      methodcaller_getattr_def call_deferred_def read_instance_plain instance_prop_def py_call_def
      instance_assert_def py_isinstance_def is_type_def call_getter_def py_getattr_def env0_defs)

section \<open>LazyInstance: the factory is never validated\<close>

text \<open>
  C10. \<open>__init__\<close> never looks at whether the factory is callable: with a type hint that
  is \<open>None\<close> or a type, construction succeeds for every value given as factory and
  stores it as it is. A factory that is neither \<open>None\<close> nor callable fails only when
  \<open>_instance\<close> is resolved, with the \<open>TypeError\<close> of the call, and the object is left
  as it was. A factory of \<open>None\<close> gives an object whose factory slot reads as consumed:
  \<open>_instance\<close> returns \<open>None\<close> with no call and no error, and no sequence of attribute
  accesses changes the object or calls anything.
\<close>

theorem factory_never_validated:
  "(type_hint = PyNone \<or> is_type type_hint \<longrightarrow>
      (\<exists>s. li_init factory type_hint strict = Inr s \<and> li_factory s = factory
           \<and> li_instance s = PyNone))
   \<and> (li_init factory type_hint strict = Inr s \<and> factory \<noteq> PyNone \<and> \<not> callable factory \<longrightarrow>
        instance_prop E s h = (Inl TypeError, s, h))
   \<and> (li_init PyNone type_hint strict = Inr s0 \<longrightarrow>
        li_factory s0 = PyNone \<and> li_instance s0 = PyNone
        \<and> instance_prop E s0 h = (Inr PyNone, s0, h)
        \<and> snd (accesses E s0 names h) = (s0, h))"
proof -
  have construction: "\<exists>s. li_init factory type_hint strict = Inr s \<and> li_factory s = factory
      \<and> li_instance s = PyNone"
    if "type_hint = PyNone \<or> is_type type_hint"
    using that by (auto simp: li_init_def)
  have kept: "li_factory s = factory" if "li_init factory type_hint strict = Inr s"
    using that by (auto simp: li_init_def split: if_splits)
  have forced: "instance_prop E s h = (Inl TypeError, s, h)"
    if "li_init factory type_hint strict = Inr s" "factory \<noteq> PyNone" "\<not> callable factory"
    using that kept [OF that(1)] by (simp add: instance_prop_def py_call_def)
  have none: "li_factory s0 = PyNone \<and> li_instance s0 = PyNone
        \<and> instance_prop E s0 h = (Inr PyNone, s0, h)
        \<and> snd (accesses E s0 names h) = (s0, h)"
    if "li_init PyNone type_hint strict = Inr s0"
  proof -
    have slots: "li_factory s0 = PyNone \<and> li_instance s0 = PyNone"
      using that by (auto simp: li_init_def split: if_splits)
    then show ?thesis
      using instance_prop_constructed [of s0 E h] accesses_constructed [of s0 E names h]
      by simp
  qed
  show ?thesis
    using construction forced none by blast
qed

theorem factory_never_validated_witness:
  "li_init (PyInt 5) PyNone False = Inr s_int
   \<and> PyInt 5 \<noteq> PyNone \<and> \<not> callable (PyInt 5)
   \<and> instance_prop E0 s_int [] = (Inl TypeError, s_int, [])
   \<and> li_init PyNone PyNone False = Inr s_none
   \<and> instance_prop E0 s_none [] = (Inr PyNone, s_none, [])
   \<and> snd (accesses E0 s_none [''title'', ''run''] []) = (s_none, [])"
  using factory_never_validated [of PyNone "PyInt 5" False s_int E0 "[]" s_none "[''title'', ''run'']"]
  by (simp add: s_int_def s_none_def li_init_def is_type_def callable_def)

end
